theory Spec2Isabelle
  imports Main "HOL-Library.Sublist" "HOL-Library.AList" "HOL-Library.Code_Target_Nat"
begin

section \<open>JavaScript values\<close>

text \<open>
  Configuration objects, language models and project file trees are JavaScript values of
  JSON shape. \<open>JUndef\<close> is JavaScript's \<open>undefined\<close>, the value of a missing property.
  Numbers are modelled as integers (no claim computes with them); strings are lists of
  characters, so \<open>length\<close> and \<open>take\<close> agree with JavaScript's \<open>length\<close> and
  \<open>substring\<close> on ASCII text such as locale codes. An object is an association list in
  insertion order; a JavaScript object holds each key once (\<open>wf_json\<close> below).
\<close>

datatype json =
    JUndef
  | JNull
  | JBool bool
  | JNum int
  | JStr string
  | JArr "json list"
  | JObj "(string \<times> json) list"

type_synonym props = "(string \<times> json) list"


text \<open>\<open>typeof v === 'object' && v !== null\<close> (lodash \<open>isObject\<close> on JSON data).\<close>

fun isObject :: "json \<Rightarrow> bool" where
  "isObject (JArr xs) = True"
| "isObject (JObj ps) = True"
| "isObject v = False"

text \<open>A string or \<open>undefined\<close>, for optional string settings.\<close>

fun truthy_str :: "string option \<Rightarrow> bool" where
  "truthy_str None = False"
| "truthy_str (Some s) = (s \<noteq> [])"

text \<open>\<open>a || b\<close> on optional strings.\<close>

definition js_or :: "string option \<Rightarrow> string option \<Rightarrow> string option" where
  "js_or a b = (if truthy_str a then a else b)"

text \<open>\<open>String.prototype.includes\<close>: the search string occurs at some position.\<close>

fun str_includes :: "string \<Rightarrow> string \<Rightarrow> bool" where
  "str_includes [] sub = (sub = [])"
| "str_includes (c # cs) sub = (take (length sub) (c # cs) = sub \<or> str_includes cs sub)"

section \<open>Errors\<close>

text \<open>
  \<open>new JovoCliError(message, module, hint)\<close>; the hint is optional. \<open>printHighlight\<close>
  (from the CLI core, a terminal decoration of its argument) is a parameter \<open>ph\<close> of the
  functions that build messages.
\<close>

record cli_error =
  err_message :: string
  err_module :: string
  err_hint :: "string option"

section \<open>JovoUser\<close>

text \<open>
  \<open>src/framework/src/JovoUser.ts\<close>. The class holds \<open>createdAt\<close>, \<open>updatedAt\<close>,
  \<open>$data\<close>, \<open>isNew\<close> and the reference \<open>jovo\<close>; \<open>id\<close> is abstract, a subclass
  derives it from \<open>jovo\<close> (\<open>AlexaUser.id\<close> reads the request), so here it is a
  function of the record's \<open>jovo\<close> field.
\<close>

record persistable_user_data =
  pdata :: json

record ('date, 'jovo) jovo_user =
  createdAt :: 'date
  updatedAt :: 'date
  user_data :: json
  jovo :: 'jovo
  isNew :: bool

definition getPersistableData :: "('date, 'jovo) jovo_user \<Rightarrow> persistable_user_data" where
  "getPersistableData u = \<lparr>pdata = user_data u\<rparr>"

definition setPersistableData ::
  "('date, 'jovo) jovo_user \<Rightarrow> persistable_user_data \<Rightarrow> ('date, 'jovo) jovo_user" where
  "setPersistableData u d = u\<lparr>user_data := pdata d\<rparr>"

definition getDefaultPersistableData :: "('date, 'jovo) jovo_user \<Rightarrow> persistable_user_data" where
  "getDefaultPersistableData u = \<lparr>pdata = JObj []\<rparr>"

section \<open>Locale resolution and validation\<close>

text \<open>
  Modelled from the spec: \<open>getResolvedLocales\<close> is inherited from the CLI core's plugin
  hook and is not among the sources of this repository. Section 4.3, step 1: for a requested token
  \<open>t\<close>, if the resolution table has an entry for \<open>t\<close> the resolved locales are that
  entry's array, otherwise they are \<open>[t]\<close>. The hooks below take the resolution as a
  parameter \<open>resolve\<close>; this definition instantiates it in the scenarios.
\<close>

definition getResolvedLocales :: "(string \<times> string list) list \<Rightarrow> string \<Rightarrow> string list" where
  "getResolvedLocales table t = (case map_of table t of Some ls \<Rightarrow> ls | None \<Rightarrow> [t])"

text \<open>
  The \<open>reduce\<close> that both hooks use to flatten the resolved locales of all requested
  locales: \<open>locales.push(...this.getResolvedLocales(locale))\<close>, no duplicate removal.
\<close>

fun resolveAll :: "(string \<Rightarrow> string list) \<Rightarrow> string list \<Rightarrow> string list \<Rightarrow> string list" where
  "resolveAll resolve acc [] = acc"
| "resolveAll resolve acc (l # ls) = resolveAll resolve (acc @ resolve l) ls"

subsection \<open>Alexa: \<open>validateLocales\<close>\<close>

definition alexa_generic_hint :: string where
  "alexa_generic_hint =
     ''Alexa does not support generic locales, please specify locales in your project configuration.''"

definition alexa_docs_hint :: string where
  "alexa_docs_hint =
     ''For more information on multiple language support: https://developer.amazon.com/en-US/docs/alexa/custom-skills/develop-skills-in-multiple-languages.html''"

definition alexa_unsupported :: "(string \<Rightarrow> string) \<Rightarrow> string \<Rightarrow> string \<Rightarrow> cli_error" where
  "alexa_unsupported ph plugin_id l =
     \<lparr>err_message = ''Locale '' @ ph l @ '' is not supported by Amazon Alexa.'',
      err_module = plugin_id,
      err_hint = Some (if length l = 2 then alexa_generic_hint else alexa_docs_hint)\<rparr>"

text \<open>The inner loop, over the resolved locales of one requested locale.\<close>

fun alexa_validateResolved ::
  "(string \<Rightarrow> string) \<Rightarrow> string \<Rightarrow> string list \<Rightarrow> string list \<Rightarrow> cli_error + unit" where
  "alexa_validateResolved ph plugin_id supported [] = Inr ()"
| "alexa_validateResolved ph plugin_id supported (r # rs) =
     (if r \<notin> set supported then Inl (alexa_unsupported ph plugin_id r)
      else alexa_validateResolved ph plugin_id supported rs)"

text \<open>The outer loop, over the requested locales; a \<open>throw\<close> leaves both loops.\<close>

fun alexa_validateLocales ::
  "(string \<Rightarrow> string) \<Rightarrow> string \<Rightarrow> string list \<Rightarrow> (string \<Rightarrow> string list) \<Rightarrow> string list
     \<Rightarrow> cli_error + unit" where
  "alexa_validateLocales ph plugin_id supported resolve [] = Inr ()"
| "alexa_validateLocales ph plugin_id supported resolve (l # ls) =
     (case alexa_validateResolved ph plugin_id supported (resolve l) of
        Inl e \<Rightarrow> Inl e
      | Inr u \<Rightarrow> alexa_validateLocales ph plugin_id supported resolve ls)"

subsection \<open>Google Conversational Actions: \<open>validateLocales\<close>\<close>

definition google_docs_hint :: string where
  "google_docs_hint =
     ''For more information on multiple language support: https://developers.google.com/assistant/console/languages-locales''"

definition google_requires_generic :: "(string \<Rightarrow> string) \<Rightarrow> string \<Rightarrow> string \<Rightarrow> string \<Rightarrow> cli_error" where
  "google_requires_generic ph cname l g =
     \<lparr>err_message = ''Locale '' @ ph l @ '' requires a generic locale '' @ ph g @ ''.'',
      err_module = cname,
      err_hint = None\<rparr>"

definition google_unsupported :: "(string \<Rightarrow> string) \<Rightarrow> string \<Rightarrow> string \<Rightarrow> cli_error" where
  "google_unsupported ph cname l =
     \<lparr>err_message = ''Locale '' @ ph l @ '' is not supported by Google Conversational Actions.'',
      err_module = cname,
      err_hint = Some google_docs_hint\<rparr>"

text \<open>
  The loop over the flattened resolved locales \<open>all\<close>; \<open>SUPPORTED_LOCALES\<close> (a JSON file
  that is not among the sources of this repository) is the parameter \<open>supported\<close>.
\<close>

fun google_validateLoop ::
  "(string \<Rightarrow> string) \<Rightarrow> string \<Rightarrow> string list \<Rightarrow> string list \<Rightarrow> string list \<Rightarrow> cli_error + unit" where
  "google_validateLoop ph cname supported all [] = Inr ()"
| "google_validateLoop ph cname supported all (l # ls) =
     (let genericLocale = take 2 l in
      if genericLocale \<in> set supported \<and> genericLocale \<notin> set all
      then Inl (google_requires_generic ph cname l genericLocale)
      else if l \<notin> set supported then Inl (google_unsupported ph cname l)
      else google_validateLoop ph cname supported all ls)"

definition google_validateLocales ::
  "(string \<Rightarrow> string) \<Rightarrow> string \<Rightarrow> string list \<Rightarrow> (string \<Rightarrow> string list) \<Rightarrow> string list
     \<Rightarrow> cli_error + unit" where
  "google_validateLocales ph cname supported resolve requested =
     (let locales = resolveAll resolve [] requested
      in google_validateLoop ph cname supported locales locales)"

subsection \<open>Google Conversational Actions: \<open>getDefaultLocale\<close>\<close>

definition no_default_locale :: "string \<Rightarrow> cli_error" where
  "no_default_locale cname =
     \<lparr>err_message = ''Could not find a default locale.'',
      err_module = cname,
      err_hint = Some ''Try adding the property \"defaultLocale\" to your project.js.''\<rparr>"

text \<open>
  The \<open>for\<close> loop of \<open>getDefaultLocale\<close> followed by \<open>return locales[0]\<close>; \<open>all\<close> is
  the whole array. \<open>locales[0]\<close> of an empty array is \<open>undefined\<close>, here \<open>None\<close>.
\<close>

fun defaultFromLocales :: "string list \<Rightarrow> string list \<Rightarrow> string option" where
  "defaultFromLocales all [] = (case all of [] \<Rightarrow> None | x # xs \<Rightarrow> Some x)"
| "defaultFromLocales all (l # ls) =
     (if str_includes l ''en'' then Some l else defaultFromLocales all ls)"

text \<open>
  \<open>filesDefault\<close> is \<open>_get(this.$config, 'files.settings/["settings.yaml"].defaultLocale')\<close>,
  \<open>configDefault\<close> is \<open>_get(this.$config, 'defaultLocale')\<close>; \<open>locales\<close> is the optional
  argument (an empty array is truthy in JavaScript).
\<close>

definition getDefaultLocale ::
  "string \<Rightarrow> string option \<Rightarrow> string option \<Rightarrow> string list option \<Rightarrow> cli_error + string option" where
  "getDefaultLocale cname filesDefault configDefault locales =
     (let defaultLocale = js_or filesDefault configDefault in
      case locales of
        Some ls \<Rightarrow> if \<not> truthy_str defaultLocale then Inr (defaultFromLocales ls ls)
                  else Inr defaultLocale
      | None \<Rightarrow> if \<not> truthy_str defaultLocale then Inl (no_default_locale cname)
                else Inr defaultLocale)"

section \<open>lodash on JSON data\<close>

text \<open>
  The hooks call \<open>lodash.merge\<close>, \<open>lodash.mergewith\<close>, \<open>lodash.has\<close>, \<open>lodash.get\<close>
  and \<open>lodash.set\<close>. They are modelled on JSON data. An object lists its keys in
  insertion order (JavaScript lists integer-like keys first; every statement below reads
  objects by key, none depends on their order). A named property that an array object
  receives is no part of a JSON value and is dropped. The paths of \<open>has\<close>, \<open>get\<close>
  and \<open>set\<close> are property names of plain objects, as the fixed paths of the hooks and
  locale codes are; they do not address arrays.
\<close>

text \<open>A value that is neither an object, an array nor \<open>undefined\<close>.\<close>

fun scalar :: "json \<Rightarrow> bool" where
  "scalar JUndef = False"
| "scalar (JArr xs) = False"
| "scalar (JObj ps) = False"
| "scalar v = True"

text \<open>
  Array indices as property keys: the decimal numeral of a number below \<open>2^32 - 1\<close>,
  without leading zeros. \<open>dec\<close> writes a number, \<open>index_of\<close> reads a key.
\<close>

definition digit_char :: "nat \<Rightarrow> char" where
  "digit_char d = ''0123456789'' ! d"

fun dec :: "nat \<Rightarrow> string" where
  "dec n = (if n < 10 then [digit_char n] else dec (n div 10) @ [digit_char (n mod 10)])"

declare dec.simps [simp del]

definition digit_val :: "char \<Rightarrow> nat option" where
  "digit_val c = (if c \<in> set ''0123456789'' then Some (of_char c - 48) else None)"

fun parse_dec :: "nat \<Rightarrow> string \<Rightarrow> nat option" where
  "parse_dec acc [] = Some acc"
| "parse_dec acc (c # cs) =
     (case digit_val c of None \<Rightarrow> None | Some d \<Rightarrow> parse_dec (10 * acc + d) cs)"

definition index_of :: "string \<Rightarrow> nat option" where
  "index_of k =
     (case parse_dec 0 k of
        Some n \<Rightarrow> if k = dec n \<and> int n < 4294967295 then Some n else None
      | None \<Rightarrow> None)"

text \<open>
  \<open>array[i]\<close>, \<open>array[i] = v\<close> and \<open>array.length = n\<close>. Writing beyond the end and
  growing the length leave holes, which read as \<open>undefined\<close>.
\<close>

definition elem :: "json list \<Rightarrow> nat \<Rightarrow> json" where
  "elem xs i = (if i < length xs then xs ! i else JUndef)"

definition set_elem :: "json list \<Rightarrow> nat \<Rightarrow> json \<Rightarrow> json list" where
  "set_elem xs i v =
     (if i < length xs then xs[i := v] else xs @ replicate (i - length xs) JUndef @ [v])"

definition resize :: "json list \<Rightarrow> nat \<Rightarrow> json list" where
  "resize xs n = take n xs @ replicate (n - length xs) JUndef"

text \<open>\<open>object[key]\<close>: \<open>undefined\<close> when the key is missing.\<close>

definition js_prop :: "props \<Rightarrow> string \<Rightarrow> json" where
  "js_prop ps k = (case map_of ps k of Some v \<Rightarrow> v | None \<Rightarrow> JUndef)"

subsection \<open>\<open>merge\<close> and \<open>mergeWith\<close>\<close>

text \<open>
  lodash takes an object for array-like when it has a \<open>length\<close> that is a whole number
  from \<open>0\<close> to \<open>2^53 - 1\<close>, and copies it into an array of that length
  (\<open>copyArray\<close>) before an array is merged into it.
\<close>

definition array_like :: "props \<Rightarrow> json list option" where
  "array_like tp =
     (case map_of tp ''length'' of
        Some (JNum n) \<Rightarrow>
          if 0 \<le> n \<and> n \<le> 9007199254740991
          then Some (map (\<lambda>i. js_prop tp (dec i)) [0..<nat n]) else None
      | _ \<Rightarrow> None)"

text \<open>
  The key \<open>length\<close> of an object that is merged into an array sets the array's
  length; JavaScript visits it after the index keys. It is modelled for a source value
  that is a number from \<open>0\<close> to \<open>2^32 - 1\<close>. Any other value of \<open>length\<close> lies
  outside the model (JavaScript converts it to a number or raises a \<open>RangeError\<close>) and
  leaves the array as it is.
\<close>

definition assign_length :: "(json \<Rightarrow> json \<Rightarrow> json option) \<Rightarrow> json list \<Rightarrow> props \<Rightarrow> json list" where
  "assign_length cust xs sp =
     (case map_of sp ''length'' of
        None \<Rightarrow> xs
      | Some sv \<Rightarrow>
          if scalar sv
          then (case (case cust (JNum (int (length xs))) sv of Some r \<Rightarrow> r | None \<Rightarrow> sv) of
                  JNum n \<Rightarrow> if 0 \<le> n \<and> n \<le> 4294967295 then resize xs (nat n) else xs
                | _ \<Rightarrow> xs)
          else xs)"

text \<open>
  lodash \<open>baseMerge\<close> with \<open>baseMergeDeep\<close>. \<open>merge_val cust t s\<close> is the value
  assigned to a key whose target value is \<open>t\<close> (\<open>JUndef\<close> when the key is missing)
  and whose source value is \<open>s\<close>; \<open>merge_props\<close> is \<open>baseMerge\<close> of a plain object
  into a plain object, one source key after the other; \<open>merge_elems\<close> is \<open>baseMerge\<close>
  of an array into an array, index by index; \<open>merge_indexed\<close> is \<open>baseMerge\<close> of a
  plain object into an array, where an index key merges into that element and any other
  key becomes a named property of the array object. The customizer \<open>cust\<close> is asked
  first at every key; \<open>None\<close> is its \<open>undefined\<close>, which falls back to the default
  handling:
  \<^item> an array source is merged into the target when that is an array, into the copy of
    an array-like target object, and into \<open>[]\<close> for any other target;
  \<^item> an object source is merged into the target when that is an object or an array,
    and into \<open>{}\<close> for any other target;
  \<^item> an \<open>undefined\<close> source leaves the target value;
  \<^item> any other source value replaces the target value.
\<close>

function (sequential)
  merge_val :: "(json \<Rightarrow> json \<Rightarrow> json option) \<Rightarrow> json \<Rightarrow> json \<Rightarrow> json" and
  merge_props :: "(json \<Rightarrow> json \<Rightarrow> json option) \<Rightarrow> props \<Rightarrow> props \<Rightarrow> props" and
  merge_elems :: "(json \<Rightarrow> json \<Rightarrow> json option) \<Rightarrow> json list \<Rightarrow> json list \<Rightarrow> json list" and
  merge_indexed :: "(json \<Rightarrow> json \<Rightarrow> json option) \<Rightarrow> json list \<Rightarrow> props \<Rightarrow> json list"
where
  "merge_val cust t (JArr ss) =
     (case cust t (JArr ss) of
        Some r \<Rightarrow> r
      | None \<Rightarrow>
          JArr (merge_elems cust
                  (case t of
                     JArr ts \<Rightarrow> ts
                   | JObj tp \<Rightarrow> (case array_like tp of Some ts \<Rightarrow> ts | None \<Rightarrow> [])
                   | _ \<Rightarrow> [])
                  ss))"
| "merge_val cust t (JObj sp) =
     (case cust t (JObj sp) of
        Some r \<Rightarrow> r
      | None \<Rightarrow> (case t of
                   JArr ts \<Rightarrow> JArr (assign_length cust (merge_indexed cust ts sp) sp)
                 | JObj tp \<Rightarrow> JObj (merge_props cust tp sp)
                 | _ \<Rightarrow> JObj (merge_props cust [] sp)))"
| "merge_val cust t JUndef = (case cust t JUndef of Some r \<Rightarrow> r | None \<Rightarrow> t)"
| "merge_val cust t s = (case cust t s of Some r \<Rightarrow> r | None \<Rightarrow> s)"
| "merge_props cust tp [] = tp"
| "merge_props cust tp ((k, sv) # sp) =
     merge_props cust (AList.update k (merge_val cust (js_prop tp k) sv) tp) sp"
| "merge_elems cust ts [] = ts"
| "merge_elems cust [] (s # ss) = merge_val cust JUndef s # merge_elems cust [] ss"
| "merge_elems cust (t # ts) (s # ss) = merge_val cust t s # merge_elems cust ts ss"
| "merge_indexed cust ts [] = ts"
| "merge_indexed cust ts ((k, sv) # sp) =
     merge_indexed cust
       (case index_of k of
          None \<Rightarrow> ts
        | Some i \<Rightarrow> set_elem ts i (merge_val cust (elem ts i) sv))
       sp"
  by pat_completeness auto
termination
  by (relation "measure (\<lambda>x. case x of
         Inl (Inl (c, t, s)) \<Rightarrow> size s
       | Inl (Inr (c, tp, sp)) \<Rightarrow> size_list (size_prod (\<lambda>k. 0) size) sp
       | Inr (Inl (c, ts, ss)) \<Rightarrow> size_list size ss
       | Inr (Inr (c, ts, sp)) \<Rightarrow> size_list (size_prod (\<lambda>k. 0) size) sp)") auto

text \<open>\<open>_merge(object, source)\<close>: no customizer.\<close>

definition no_customizer :: "json \<Rightarrow> json \<Rightarrow> json option" where
  "no_customizer t s = None"

definition merge :: "props \<Rightarrow> props \<Rightarrow> props" where
  "merge object source = merge_props no_customizer object source"

text \<open>First-seen duplicate removal, as lodash \<open>uniq\<close> does it with a list of seen values.\<close>

fun uniq_seen :: "'a list \<Rightarrow> 'a list \<Rightarrow> 'a list" where
  "uniq_seen seen [] = []"
| "uniq_seen seen (x # xs) =
     (if x \<in> set seen then uniq_seen seen xs else x # uniq_seen (seen @ [x]) xs)"

definition uniq :: "'a list \<Rightarrow> 'a list" where
  "uniq xs = uniq_seen [] xs"

text \<open>
  Modelled from the spec: \<open>mergeArrayCustomizer\<close> is imported from the CLI core and is not
  part of the sources at hand. Section 4.4, item 1: a standard deep merge, "except when
  both sides of a key are arrays -- in that case, the arrays are concatenated and
  exact-duplicate elements removed, rather than one replacing the other"; section 8:
  "dedup, order preserved from first-seen". In every other case the customizer returns
  \<open>undefined\<close> and the standard merge applies.
\<close>

fun mergeArrayCustomizer :: "json \<Rightarrow> json \<Rightarrow> json option" where
  "mergeArrayCustomizer (JArr target) (JArr source) = Some (JArr (uniq (target @ source)))"
| "mergeArrayCustomizer target source = None"

text \<open>\<open>_mergeWith(object, source, mergeArrayCustomizer)\<close>.\<close>

definition mergeWithArrays :: "props \<Rightarrow> props \<Rightarrow> props" where
  "mergeWithArrays object source = merge_props mergeArrayCustomizer object source"

subsection \<open>\<open>has\<close>, \<open>get\<close> and \<open>set\<close>\<close>

text \<open>Following a path of keys from a value; \<open>None\<close> when a key is not an own property.\<close>

fun walk :: "json \<Rightarrow> string list \<Rightarrow> json option" where
  "walk v [] = Some v"
| "walk (JObj ps) (k # ks) = (case map_of ps k of None \<Rightarrow> None | Some v \<Rightarrow> walk v ks)"
| "walk v (k # ks) = None"


text \<open>\<open>_get(object, path)\<close>: \<open>undefined\<close> when the path does not resolve.\<close>

definition get :: "json \<Rightarrow> string list \<Rightarrow> json" where
  "get object path =
     (if path = [] then JUndef
      else case walk object path of Some v \<Rightarrow> v | None \<Rightarrow> JUndef)"



section \<open>Loading and merging the language model\<close>

text \<open>
  Something thrown: a \<open>JovoCliError\<close>, or any other error with its \<open>message\<close>.
\<close>

datatype exn = JovoErr cli_error | OtherErr string

text \<open>\<open>x || {}\<close> and \<open>_get(config, path, {})\<close> on an optional object.\<close>

fun or_empty :: "props option \<Rightarrow> props" where
  "or_empty None = []"
| "or_empty (Some ps) = ps"

text \<open>
  \<open>getJovoModel\<close> (Alexa) and \<open>getModel\<close> (Google) have the same body up to the
  configuration key of the plugin-level model. \<open>projectModel\<close> is
  \<open>jovo.$project.getModel\<close>, which throws when the locale has no model file;
  \<open>projectLM\<close> is the project-level \<open>languageModel.<locale>\<close>, \<open>pluginLM\<close> the
  plugin-level one.
\<close>

definition getJovoModel ::
  "(string \<Rightarrow> exn + props) \<Rightarrow> (string \<Rightarrow> props option) \<Rightarrow> (string \<Rightarrow> props option) \<Rightarrow> string
     \<Rightarrow> exn + props" where
  "getJovoModel projectModel projectLM pluginLM locale =
     (case projectModel locale of
        Inl e \<Rightarrow> Inl e
      | Inr model \<Rightarrow>
          Inr (mergeWithArrays (mergeWithArrays model (or_empty (projectLM locale)))
                 (or_empty (pluginLM locale))))"

definition getModel ::
  "(string \<Rightarrow> exn + props) \<Rightarrow> (string \<Rightarrow> props option) \<Rightarrow> (string \<Rightarrow> props option) \<Rightarrow> string
     \<Rightarrow> exn + props" where
  "getModel projectModel projectLM pluginLM locale =
     (case projectModel locale of
        Inl e \<Rightarrow> Inl e
      | Inr model \<Rightarrow>
          Inr (mergeWithArrays (mergeWithArrays model (or_empty (projectLM locale)))
                 (or_empty (pluginLM locale))))"

section \<open>Project files\<close>

text \<open>
  The first step of both \<open>createAlexaProjectFiles\<close> and \<open>createGoogleProjectFiles\<close>:
  \<open>files\<close> is the user's \<open>files\<close> configuration as \<open>FileBuilder.normalizeFileObject\<close>
  returns it (\<open>{}\<close> when not configured), \<open>defaultFiles\<close> is the content of
  \<open>DefaultFiles.json\<close> (not among the sources of this repository, a parameter), \<open>hasPlatform\<close>
  tells whether the platform folder exists already.
\<close>

definition baseProjectFiles :: "bool \<Rightarrow> props \<Rightarrow> props \<Rightarrow> json" where
  "baseProjectFiles hasPlatform defaultFiles files =
     (if hasPlatform then JObj files else JObj (merge defaultFiles files))"

subsection \<open>Alexa: \<open>createAlexaProjectFiles\<close>\<close>












subsection \<open>Google Conversational Actions: \<open>createGoogleProjectFiles\<close>\<close>












section \<open>Building the language model\<close>

text \<open>
  \<open>NativeFileInformation\<close>: a path and a content. The platform converters
  (\<open>JovoModelAlexa\<close>, \<open>JovoModelGoogle\<close>) come from other packages; their
  \<open>exportNative\<close> is a parameter that may throw, return \<open>undefined\<close> (\<open>None\<close>) or
  return a list of files.
\<close>

record nfi =
  nfi_path :: "string list"
  nfi_content :: json

text \<open>
  What is written to a file: \<open>JSON.stringify\<close> of a value, a converter's content as it
  is, or \<open>yaml.stringify\<close> of a value. The file system holds the directories created
  and the files written; its calls are taken to succeed.
\<close>

datatype written = JsonText json | RawContent json | YamlText json

record filesystem =
  fs_dirs :: "string list list"
  fs_files :: "(string list \<times> written) list"

definition existsSync :: "filesystem \<Rightarrow> string list \<Rightarrow> bool" where
  "existsSync fs p = (p \<in> set (fs_dirs fs))"

text \<open>\<open>mkdirSync(p, { recursive: true })\<close>: the directory and its missing parents.\<close>

definition mkdirSync :: "string list \<Rightarrow> filesystem \<Rightarrow> filesystem" where
  "mkdirSync p fs =
     fs\<lparr>fs_dirs := fs_dirs fs @ filter (\<lambda>d. d \<noteq> [] \<and> d \<notin> set (fs_dirs fs)) (prefixes p)\<rparr>"

definition ensureDir :: "string list \<Rightarrow> filesystem \<Rightarrow> filesystem" where
  "ensureDir p fs = (if \<not> existsSync fs p then mkdirSync p fs else fs)"

definition writeFileSync :: "string list \<Rightarrow> written \<Rightarrow> filesystem \<Rightarrow> filesystem" where
  "writeFileSync p c fs = fs\<lparr>fs_files := AList.update p c (fs_files fs)\<rparr>"

subsection \<open>Alexa: \<open>buildLanguageModel\<close>\<close>

definition could_not_build :: "string \<Rightarrow> string \<Rightarrow> cli_error" where
  "could_not_build cname locale =
     \<lparr>err_message = ''Could not build Alexa files for locale \"'' @ locale @ ''\"!'',
      err_module = cname,
      err_hint = None\<rparr>"

text \<open>
  The loop inside the \<open>try\<close> block. The result is what was thrown, if anything, and
  the file system as the loop left it: files written for earlier locales stay.
\<close>

fun alexa_buildLoop ::
  "string \<Rightarrow> (props \<Rightarrow> string \<Rightarrow> exn + nfi list option) \<Rightarrow> string list \<Rightarrow> (string \<Rightarrow> string list)
     \<Rightarrow> props \<Rightarrow> string list \<Rightarrow> filesystem \<Rightarrow> exn option \<times> filesystem" where
  "alexa_buildLoop cname exportNative modelsPath modelPath model [] fs = (None, fs)"
| "alexa_buildLoop cname exportNative modelsPath modelPath model (locale # locales) fs =
     (case exportNative model locale of
        Inl e \<Rightarrow> (Some e, fs)
      | Inr None \<Rightarrow> (Some (JovoErr (could_not_build cname locale)), fs)
      | Inr (Some []) \<Rightarrow> (Some (JovoErr (could_not_build cname locale)), fs)
      | Inr (Some (f # more_files)) \<Rightarrow>
          alexa_buildLoop cname exportNative modelsPath modelPath model locales
            (writeFileSync (modelPath locale) (JsonText (nfi_content f)) (ensureDir modelsPath fs)))"

text \<open>
  \<open>getJovoModel\<close> runs before the \<open>try\<close>; the \<open>catch\<close> rethrows a \<open>JovoCliError\<close>
  and wraps the message of any other error into one.
\<close>

definition alexa_buildLanguageModel ::
  "string \<Rightarrow> (string \<Rightarrow> exn + props) \<Rightarrow> (string \<Rightarrow> props option) \<Rightarrow> (string \<Rightarrow> props option)
     \<Rightarrow> (props \<Rightarrow> string \<Rightarrow> exn + nfi list option) \<Rightarrow> string list \<Rightarrow> (string \<Rightarrow> string list)
     \<Rightarrow> string \<Rightarrow> string list \<Rightarrow> filesystem \<Rightarrow> exn option \<times> filesystem" where
  "alexa_buildLanguageModel cname projectModel projectLM pluginLM exportNative modelsPath modelPath
       modelLocale resolvedLocales fs =
     (case getJovoModel projectModel projectLM pluginLM modelLocale of
        Inl e \<Rightarrow> (Some e, fs)
      | Inr model \<Rightarrow>
          (case alexa_buildLoop cname exportNative modelsPath modelPath model resolvedLocales fs of
             (Some (OtherErr msg), fs') \<Rightarrow>
               (Some (JovoErr \<lparr>err_message = msg, err_module = cname, err_hint = None\<rparr>), fs')
           | (r, fs') \<Rightarrow> (r, fs')))"

subsection \<open>Google Conversational Actions: \<open>buildLanguageModel\<close>\<close>

text \<open>\<open>String.prototype.replace\<close> with a string pattern: the first occurrence only.\<close>

fun replace_first :: "string \<Rightarrow> string \<Rightarrow> string \<Rightarrow> string" where
  "replace_first [] pat rep = (if pat = [] then rep else [])"
| "replace_first (c # cs) pat rep =
     (if take (length pat) (c # cs) = pat then rep @ drop (length pat) (c # cs)
      else c # replace_first cs pat rep)"

text \<open>
  The loop over the files of one locale; \<open>custom\<close> is \<open>actions.custom\<close>.
  \<open>file.path.pop()\<close> takes the file name off the path; on an empty path it yields
  \<open>undefined\<close> and joining the paths throws a \<open>TypeError\<close>.
\<close>

fun google_fileLoop ::
  "string list \<Rightarrow> nfi list \<Rightarrow> props \<Rightarrow> filesystem \<Rightarrow> exn option \<times> props \<times> filesystem" where
  "google_fileLoop platformPath [] custom fs = (None, custom, fs)"
| "google_fileLoop platformPath (file # more_files) custom fs =
     (if nfi_path file = []
      then (Some (OtherErr ''The \"path\" argument must be of type string. Received undefined''),
            custom, ensureDir platformPath fs)
      else
        (let fileName = last (nfi_path file);
             dir = butlast (nfi_path file);
             modelPath = platformPath @ dir;
             fs1 = ensureDir modelPath fs;
             custom1 = (if ''intents'' \<in> set dir
                        then AList.update (replace_first fileName ''.yaml'' '''') (JObj []) custom
                        else custom)
         in google_fileLoop platformPath more_files custom1
              (writeFileSync (modelPath @ [fileName]) (RawContent (nfi_content file)) fs1)))"

text \<open>
  The loop over the resolved locales. \<open>projectActions\<close> is \<open>getProjectActions()\<close>,
  \<open>None\<close> when \<open>options.actions/\<close> is not configured (merging \<open>undefined\<close> changes
  nothing). Iterating over an \<open>undefined\<close> result of \<open>exportNative\<close> throws a
  \<open>TypeError\<close>.
\<close>

fun google_buildLoop ::
  "(props \<Rightarrow> string \<Rightarrow> string option \<Rightarrow> exn + nfi list option) \<Rightarrow> string list \<Rightarrow> props option
     \<Rightarrow> string option \<Rightarrow> props \<Rightarrow> string list \<Rightarrow> filesystem \<Rightarrow> exn option \<times> filesystem" where
  "google_buildLoop exportNative platformPath projectActions defaultLocale model [] fs = (None, fs)"
| "google_buildLoop exportNative platformPath projectActions defaultLocale model (locale # locales) fs =
     (case exportNative model locale defaultLocale of
        Inl e \<Rightarrow> (Some e, fs)
      | Inr None \<Rightarrow> (Some (OtherErr ''modelFiles is not iterable''), fs)
      | Inr (Some modelFiles) \<Rightarrow>
          (case google_fileLoop platformPath modelFiles [(''actions.intent.MAIN'', JObj [])] fs of
             (Some e, custom, fs1) \<Rightarrow> (Some e, fs1)
           | (None, custom, fs1) \<Rightarrow>
               (let actions = merge [(''custom'', JObj custom)] (or_empty projectActions);
                    actionsPath = platformPath @ [''actions'']
                in google_buildLoop exportNative platformPath projectActions defaultLocale model locales
                     (writeFileSync (actionsPath @ [''actions.yaml'']) (YamlText (JObj actions))
                        (ensureDir actionsPath fs1)))))"

definition google_buildLanguageModel ::
  "(string \<Rightarrow> exn + props) \<Rightarrow> (string \<Rightarrow> props option) \<Rightarrow> (string \<Rightarrow> props option)
     \<Rightarrow> (props \<Rightarrow> string \<Rightarrow> string option \<Rightarrow> exn + nfi list option) \<Rightarrow> string list \<Rightarrow> props option
     \<Rightarrow> string option \<Rightarrow> string \<Rightarrow> string list \<Rightarrow> filesystem \<Rightarrow> exn option \<times> filesystem" where
  "google_buildLanguageModel projectModel projectLM pluginLM exportNative platformPath projectActions
       defaultLocale modelLocale resolvedLocales fs =
     (case getModel projectModel projectLM pluginLM modelLocale of
        Inl e \<Rightarrow> (Some e, fs)
      | Inr model \<Rightarrow>
          google_buildLoop exportNative platformPath projectActions defaultLocale model
            resolvedLocales fs)"

section \<open>Reverse build (Alexa)\<close>

definition no_valid_data :: "string \<Rightarrow> cli_error" where
  "no_valid_data cname =
     \<lparr>err_message = ''Alexa files did not contain any valid data.'',
      err_module = cname,
      err_hint = None\<rparr>"

text \<open>
  The task that \<open>buildReverse\<close> creates for one locale. \<open>platformModel\<close> is the parsed
  content of the platform's model file (\<open>getPlatformModel\<close>); \<open>importNative\<close> stands for
  \<open>jovoModel.importNative(files, locale)\<close> followed by \<open>jovoModel.exportJovoModel()\<close>
  of the converter: it may throw while importing, and yields the exported model or
  \<open>undefined\<close> (\<open>None\<close>). \<open>projectModel\<close> throws when the locale has no model file, which
  the \<open>catch\<close> turns into the model \<open>{ invocation: '' }\<close>. The result is the model
  handed to \<open>saveModel\<close>.
\<close>

definition buildReverse_locale ::
  "string \<Rightarrow> (nfi list \<Rightarrow> string \<Rightarrow> exn + props option) \<Rightarrow> (string \<Rightarrow> exn + props)
     \<Rightarrow> (string \<Rightarrow> json) \<Rightarrow> string \<Rightarrow> exn + props" where
  "buildReverse_locale cname importNative projectModel platformModel locale =
     (let alexaModelFiles = [\<lparr>nfi_path = [], nfi_content = platformModel locale\<rparr>] in
      case importNative alexaModelFiles locale of
        Inl e \<Rightarrow> Inl e
      | Inr nativeData \<Rightarrow>
          (let modelFile = (case projectModel locale of
                              Inl e \<Rightarrow> [(''invocation'', JStr '''')]
                            | Inr m \<Rightarrow> m)
           in case nativeData of
                None \<Rightarrow> Inl (JovoErr (no_valid_data cname))
              | Some nd \<Rightarrow> Inr (merge modelFile nd)))"

text \<open>Every object of a value holds each key once.\<close>

fun wf_json :: "json \<Rightarrow> bool" where
  "wf_json (JObj ps) = (distinct (map fst ps) \<and> (\<forall>v \<in> snd ` set ps. wf_json v))"
| "wf_json (JArr xs) = (\<forall>v \<in> set xs. wf_json v)"
| "wf_json v = True"


section \<open>Properties\<close>

subsection \<open>Helper lemmas\<close>

lemma resolveAll_concat: "resolveAll resolve acc ls = acc @ concat (map resolve ls)"
  by (induction ls arbitrary: acc) simp_all

lemma str_includes_iff: "str_includes s sub \<longleftrightarrow> (\<exists>p q. s = p @ sub @ q)"
proof (induction s)
  case Nil
  then show ?case by auto
next
  case (Cons c cs)
  have here: "take (length sub) (c # cs) = sub \<longleftrightarrow> (\<exists>q. c # cs = sub @ q)"
  proof
    assume "take (length sub) (c # cs) = sub"
    then have "c # cs = sub @ drop (length sub) (c # cs)"
      by (metis append_take_drop_id)
    then show "\<exists>q. c # cs = sub @ q" ..
  next
    assume "\<exists>q. c # cs = sub @ q"
    then show "take (length sub) (c # cs) = sub" by auto
  qed
  show ?case
  proof
    assume "str_includes (c # cs) sub"
    then consider "take (length sub) (c # cs) = sub" | "str_includes cs sub" by auto
    then show "\<exists>p q. c # cs = p @ sub @ q"
    proof cases
      case 1
      with here obtain q where "c # cs = [] @ sub @ q" by auto
      then show ?thesis by blast
    next
      case 2
      with Cons.IH obtain p q where "cs = p @ sub @ q" by blast
      then have "c # cs = (c # p) @ sub @ q" by simp
      then show ?thesis by blast
    qed
  next
    assume "\<exists>p q. c # cs = p @ sub @ q"
    then obtain p q where pq: "c # cs = p @ sub @ q" by blast
    show "str_includes (c # cs) sub"
    proof (cases p)
      case Nil
      with pq have "\<exists>q. c # cs = sub @ q" by auto
      with here have "take (length sub) (c # cs) = sub" by blast
      then show ?thesis by simp
    next
      case (Cons a p')
      with pq have "cs = p' @ sub @ q" by simp
      with Cons.IH have "str_includes cs sub" by blast
      then show ?thesis by simp
    qed
  qed
qed

lemma find_append:
  "find P (xs @ ys) = (case find P xs of None \<Rightarrow> find P ys | Some x \<Rightarrow> Some x)"
  by (induction xs) simp_all

lemma find_Some_in_set: "find P xs = Some x \<Longrightarrow> x \<in> set xs"
  by (induction xs) (auto split: if_splits)

lemma find_weaken:
  "\<forall>x\<in>set xs. \<not> Q x \<Longrightarrow> find (\<lambda>x. Q x \<or> P x) xs = find P xs"
  by (induction xs) simp_all

lemma google_validateLoop_find:
  "google_validateLoop ph cname supported all ls =
     (case find (\<lambda>l. (take 2 l \<in> set supported \<and> take 2 l \<notin> set all) \<or> l \<notin> set supported) ls of
        None \<Rightarrow> Inr ()
      | Some l \<Rightarrow> Inl (if take 2 l \<in> set supported \<and> take 2 l \<notin> set all
                       then google_requires_generic ph cname l (take 2 l)
                       else google_unsupported ph cname l))"
  by (induction ls) (simp_all add: Let_def)

lemma alexa_validateResolved_find:
  "alexa_validateResolved ph pid supported rs =
     (case find (\<lambda>l. l \<notin> set supported) rs of
        None \<Rightarrow> Inr ()
      | Some l \<Rightarrow> Inl (alexa_unsupported ph pid l))"
  by (induction rs) simp_all

lemma alexa_validateLocales_find:
  "alexa_validateLocales ph pid supported resolve requested =
     (case find (\<lambda>l. l \<notin> set supported) (concat (map resolve requested)) of
        None \<Rightarrow> Inr ()
      | Some l \<Rightarrow> Inl (alexa_unsupported ph pid l))"
  by (induction requested)
     (simp_all add: alexa_validateResolved_find find_append split: option.splits)

lemma defaultFromLocales_find:
  "defaultFromLocales all ls =
     (case find (\<lambda>l. str_includes l ''en'') ls of
        Some l \<Rightarrow> Some l
      | None \<Rightarrow> (case all of [] \<Rightarrow> None | x # xs \<Rightarrow> Some x))"
  by (induction ls) simp_all

lemma js_prop_update:
  "js_prop (AList.update k v ps) k' = (if k' = k then v else js_prop ps k')"
  by (simp add: js_prop_def update_conv')

lemma merge_props_lookup:
  "distinct (map fst sp) \<Longrightarrow>
   map_of (merge_props cust tp sp) k =
     (case map_of sp k of
        None \<Rightarrow> map_of tp k
      | Some sv \<Rightarrow> Some (merge_val cust (js_prop tp k) sv))"
proof (induction sp arbitrary: tp)
  case Nil
  then show ?case by simp
next
  case (Cons a sp)
  obtain k' sv where a: "a = (k', sv)" by (cases a)
  from Cons.prems a have d: "distinct (map fst sp)" and nk: "k' \<notin> fst ` set sp" by auto
  from nk have none: "map_of sp k' = None" by (simp add: map_of_eq_None_iff)
  show ?case
    using Cons.IH [OF d, of "AList.update k' (merge_val cust (js_prop tp k') sv) tp"] none
    by (auto simp: a update_conv' js_prop_update split: option.splits)
qed





lemma merge_elems_fresh:
  "\<forall>v\<in>set ss. merge_val c JUndef v = v \<Longrightarrow> merge_elems c [] ss = ss"
  by (induction ss) simp_all

lemma update_fresh: "k \<notin> fst ` set ps \<Longrightarrow> AList.update k v ps = ps @ [(k, v)]"
  by (induction ps) auto

lemma js_prop_fresh: "k \<notin> fst ` set ps \<Longrightarrow> js_prop ps k = JUndef"
proof -
  assume "k \<notin> fst ` set ps"
  then have "map_of ps k = None" by (simp add: map_of_eq_None_iff)
  then show ?thesis by (simp add: js_prop_def)
qed

lemma merge_props_fresh:
  "distinct (map fst sp) \<Longrightarrow> fst ` set tp \<inter> fst ` set sp = {} \<Longrightarrow>
   \<forall>v\<in>snd ` set sp. merge_val c JUndef v = v \<Longrightarrow> merge_props c tp sp = tp @ sp"
proof (induction sp arbitrary: tp)
  case Nil
  then show ?case by simp
next
  case (Cons a sp)
  obtain k sv where a: "a = (k, sv)" by (cases a)
  from Cons.prems a have fresh: "k \<notin> fst ` set tp" by auto
  from Cons.prems a have sv: "merge_val c JUndef sv = sv" by auto
  have step: "AList.update k (merge_val c (js_prop tp k) sv) tp = tp @ [(k, sv)]"
    using fresh sv by (simp add: js_prop_fresh update_fresh)
  from Cons.prems a have d: "distinct (map fst sp)" by simp
  from Cons.prems a have dis: "fst ` set (tp @ [(k, sv)]) \<inter> fst ` set sp = {}" by auto
  from Cons.prems a have vs: "\<forall>v\<in>snd ` set sp. merge_val c JUndef v = v" by auto
  show ?case
    using Cons.IH [OF d dis vs] by (simp add: a step)
qed

lemma merge_val_clone0: "wf_json v \<Longrightarrow> merge_val (\<lambda>t s. None) JUndef v = v"
proof (induction v)
  case (JArr xs)
  then have "\<forall>v\<in>set xs. merge_val (\<lambda>t s. None) JUndef v = v" by auto
  then show ?case by (simp add: merge_elems_fresh)
next
  case (JObj ps)
  then have vs: "\<forall>v\<in>snd ` set ps. merge_val (\<lambda>t s. None) JUndef v = v" by fastforce
  from JObj.prems have d: "distinct (map fst ps)" by simp
  have "merge_props (\<lambda>t s. None) [] ps = [] @ ps"
    by (rule merge_props_fresh [OF d _ vs]) simp
  then show ?case by simp
qed simp_all

lemma merge_val_over_scalar:
  "wf_json v \<Longrightarrow> \<not> isObject t \<Longrightarrow> merge_val no_customizer t v = (if v = JUndef then t else v)"
  unfolding no_customizer_def
proof (cases v)
  case (JArr xs)
  assume "wf_json v" "\<not> isObject t"
  with JArr merge_val_clone0 [of v] show "merge_val (\<lambda>t s. None) t v = (if v = JUndef then t else v)"
    by (cases t) simp_all
next
  case (JObj ps)
  assume "wf_json v" "\<not> isObject t"
  with JObj merge_val_clone0 [of v] show "merge_val (\<lambda>t s. None) t v = (if v = JUndef then t else v)"
    by (cases t) simp_all
qed simp_all

lemma merge_val_scalar: "scalar s \<Longrightarrow> merge_val no_customizer t s = s"
  by (cases s) (simp_all add: no_customizer_def)

lemma merge_elems_scalars:
  "\<forall>y\<in>set ys. scalar y \<Longrightarrow> merge_elems no_customizer xs ys = ys @ drop (length ys) xs"
proof (induction ys arbitrary: xs)
  case Nil
  then show ?case by simp
next
  case (Cons y ys)
  then show ?case by (cases xs) (simp_all add: merge_val_scalar)
qed

lemma merge_elems_length:
  "length (merge_elems c xs ys) = max (length xs) (length ys)"
proof (induction ys arbitrary: xs)
  case Nil
  then show ?case by simp
next
  case (Cons y ys)
  then show ?case by (cases xs) simp_all
qed

lemma get_single: "get (JObj ps) [k] = js_prop ps k"
  by (simp add: get_def js_prop_def split: option.splits)


lemma walk_Cons_Some:
  "walk T (k # ks) = Some v \<Longrightarrow> \<exists>ps v'. T = JObj ps \<and> map_of ps k = Some v' \<and> walk v' ks = Some v"
  by (cases T) (auto split: option.splits)











lemma merge_object_into_array_example:
  "merge [(''a'', JArr [JNum 1, JNum 2])] [(''a'', JObj [(''0'', JNum 9)])]
     = [(''a'', JArr [JNum 9, JNum 2])]"
  by (simp add: merge_def no_customizer_def js_prop_def index_of_def digit_val_def dec.simps
      digit_char_def elem_def set_elem_def assign_length_def)




lemma wf_json_lookup: "wf_json (JObj ps) \<Longrightarrow> map_of ps k = Some v \<Longrightarrow> wf_json v"
proof -
  assume w: "wf_json (JObj ps)" and l: "map_of ps k = Some v"
  from l have "v \<in> snd ` set ps" by (metis map_of_SomeD snd_conv image_eqI)
  with w show ?thesis by auto
qed

lemma merge_walk:
  assumes c: "\<And>t sp. cust t (JObj sp) = None"
  shows "wf_json s \<Longrightarrow> walk s p = Some sv \<Longrightarrow> walk t p = Some tv \<Longrightarrow>
         walk (merge_val cust t s) p = Some (merge_val cust tv sv)"
proof (induction p arbitrary: s t)
  case Nil
  then show ?case by simp
next
  case (Cons k ks)
  from Cons.prems(2) obtain sp s' where s: "s = JObj sp"
    and ls: "map_of sp k = Some s'" and rs: "walk s' ks = Some sv"
    using walk_Cons_Some by blast
  from Cons.prems(3) obtain tp t' where t: "t = JObj tp"
    and lt: "map_of tp k = Some t'" and rt: "walk t' ks = Some tv"
    using walk_Cons_Some by blast
  from Cons.prems(1) s have d: "distinct (map fst sp)" by simp
  from Cons.prems(1) s ls have w': "wf_json s'" using wf_json_lookup by blast
  from lt have jp: "js_prop tp k = t'" by (simp add: js_prop_def)
  have "map_of (merge_props cust tp sp) k = Some (merge_val cust t' s')"
    using d ls jp by (simp add: merge_props_lookup)
  moreover have "walk (merge_val cust t' s') ks = Some (merge_val cust tv sv)"
    by (rule Cons.IH [OF w' rs rt])
  moreover have "merge_val cust t s = JObj (merge_props cust tp sp)"
    by (simp add: s t c)
  ultimately show ?case by simp
qed



lemma no_customizer_obj: "no_customizer t (JObj sp) = None"
  by (simp add: no_customizer_def)

lemma merge_elems_nth_scalar:
  "i < length ys \<Longrightarrow> scalar (ys ! i) \<Longrightarrow> merge_elems no_customizer xs ys ! i = ys ! i"
proof (induction ys arbitrary: xs i)
  case Nil
  then show ?case by simp
next
  case (Cons y ys)
  show ?case
  proof (cases i)
    case 0
    with Cons.prems show ?thesis by (cases xs) (simp_all add: merge_val_scalar)
  next
    case (Suc j)
    with Cons.prems Cons.IH [of j] show ?thesis by (cases xs) simp_all
  qed
qed

lemma merge_elems_nth_rest:
  "length ys \<le> i \<Longrightarrow> i < length xs \<Longrightarrow> merge_elems c xs ys ! i = xs ! i"
proof (induction ys arbitrary: xs i)
  case Nil
  then show ?case by simp
next
  case (Cons y ys)
  from Cons.prems obtain j where i: "i = Suc j" by (cases i) auto
  from Cons.prems obtain x xs' where xs: "xs = x # xs'" by (cases xs) auto
  from Cons.prems Cons.IH [of j xs'] show ?case by (simp add: i xs)
qed

subsection \<open>Default locale\<close>

text \<open>
  C2. With no default locale configured (both configuration entries missing or empty) and
  a non-empty array of resolved locales, \<open>getDefaultLocale\<close> returns the first resolved
  locale that contains \<open>en\<close> as a substring, and the first resolved locale when none
  does. Resolving the request \<open>en\<close> through the table \<open>{en: [en-US, en-GB]}\<close> makes
  \<open>en-US\<close> the default.
\<close>

theorem getDefaultLocale_prefers_en:
  "(ls \<noteq> [] \<longrightarrow> \<not> truthy_str filesDefault \<longrightarrow> \<not> truthy_str configDefault \<longrightarrow>
      getDefaultLocale cname filesDefault configDefault (Some ls) =
        Inr (Some (case find (\<lambda>l. \<exists>p q. l = p @ ''en'' @ q) ls of
                     Some l \<Rightarrow> l
                   | None \<Rightarrow> hd ls)))
   \<and> getDefaultLocale cname None None
        (Some (resolveAll (getResolvedLocales [(''en'', [''en-US'', ''en-GB''])]) [] [''en'']))
      = Inr (Some ''en-US'')"
proof (intro conjI impI)
  assume ne: "ls \<noteq> []" and f: "\<not> truthy_str filesDefault" and c: "\<not> truthy_str configDefault"
  have p: "(\<lambda>l. \<exists>p q. l = p @ ''en'' @ q) = (\<lambda>l. str_includes l ''en'')"
    by (simp add: str_includes_iff)
  from f c have "\<not> truthy_str (js_or filesDefault configDefault)"
    by (simp add: js_or_def)
  then have "getDefaultLocale cname filesDefault configDefault (Some ls) =
      Inr (defaultFromLocales ls ls)"
    by (simp add: getDefaultLocale_def)
  also have "defaultFromLocales ls ls =
      Some (case find (\<lambda>l. str_includes l ''en'') ls of Some l \<Rightarrow> l | None \<Rightarrow> hd ls)"
    using ne by (cases ls) (simp_all add: defaultFromLocales_find split: option.splits)
  finally show "getDefaultLocale cname filesDefault configDefault (Some ls) =
        Inr (Some (case find (\<lambda>l. \<exists>p q. l = p @ ''en'' @ q) ls of
                     Some l \<Rightarrow> l
                   | None \<Rightarrow> hd ls))"
    by (simp only: p)
next
  show "getDefaultLocale cname None None
        (Some (resolveAll (getResolvedLocales [(''en'', [''en-US'', ''en-GB''])]) [] [''en'']))
      = Inr (Some ''en-US'')"
    by (simp add: getDefaultLocale_def js_or_def getResolvedLocales_def)
qed

theorem getDefaultLocale_prefers_en_witness:
  "getDefaultLocale ''BuildHook'' None (Some '''') (Some [''de-DE'', ''fr-FR'']) = Inr (Some ''de-DE'')
   \<and> getDefaultLocale ''BuildHook'' None (Some '''') (Some [''de-DE'', ''en-GB'', ''en-US''])
      = Inr (Some ''en-GB'')"
proof -
  have p: "(\<lambda>l. \<exists>p q. l = p @ ''en'' @ q) = (\<lambda>l. str_includes l ''en'')"
    by (simp add: str_includes_iff)
  have a: "find (\<lambda>l. \<exists>p q. l = p @ ''en'' @ q) [''de-DE'', ''fr-FR''] = None"
    unfolding p by simp
  have b: "find (\<lambda>l. \<exists>p q. l = p @ ''en'' @ q) [''de-DE'', ''en-GB'', ''en-US''] = Some ''en-GB''"
    unfolding p by simp
  from getDefaultLocale_prefers_en
         [of "[''de-DE'', ''fr-FR'']" None "Some ''''" "''BuildHook''", unfolded a]
       getDefaultLocale_prefers_en
         [of "[''de-DE'', ''en-GB'', ''en-US'']" None "Some ''''" "''BuildHook''", unfolded b]
  show ?thesis by simp
qed

subsection \<open>Locale validation\<close>

text \<open>
  C3 (amended). Both hooks stop at the first offending resolved locale and raise one error
  that names it; no file is touched (the functions have no file-system effect). On Alexa
  the offending locale is the first resolved locale outside the supported list; the hint
  is the documentation link unless the locale is two characters long, where it is the
  advice to configure concrete locales. On Google the same holds, with the documentation
  link, when no resolved locale lacks its generic locale.
\<close>

theorem validateLocales_first_unsupported:
  "alexa_validateLocales ph pid supported resolve requested =
     (case find (\<lambda>l. l \<notin> set supported) (concat (map resolve requested)) of
        None \<Rightarrow> Inr ()
      | Some l \<Rightarrow> Inl \<lparr>err_message = ''Locale '' @ ph l @ '' is not supported by Amazon Alexa.'',
                       err_module = pid,
                       err_hint = Some (if length l = 2 then alexa_generic_hint
                                        else alexa_docs_hint)\<rparr>)
   \<and> ((\<forall>l\<in>set (concat (map resolve requested)).
          \<not> (take 2 l \<in> set supported \<and> take 2 l \<notin> set (concat (map resolve requested))))
      \<longrightarrow> google_validateLocales ph cname supported resolve requested =
            (case find (\<lambda>l. l \<notin> set supported) (concat (map resolve requested)) of
               None \<Rightarrow> Inr ()
             | Some l \<Rightarrow>
                 Inl \<lparr>err_message =
                        ''Locale '' @ ph l @ '' is not supported by Google Conversational Actions.'',
                      err_module = cname,
                      err_hint = Some google_docs_hint\<rparr>))"
proof (intro conjI impI)
  show "alexa_validateLocales ph pid supported resolve requested =
     (case find (\<lambda>l. l \<notin> set supported) (concat (map resolve requested)) of
        None \<Rightarrow> Inr ()
      | Some l \<Rightarrow> Inl \<lparr>err_message = ''Locale '' @ ph l @ '' is not supported by Amazon Alexa.'',
                       err_module = pid,
                       err_hint = Some (if length l = 2 then alexa_generic_hint
                                        else alexa_docs_hint)\<rparr>)"
    by (simp add: alexa_validateLocales_find alexa_unsupported_def split: option.splits)
next
  let ?locales = "concat (map resolve requested)"
  assume ok: "\<forall>l\<in>set ?locales. \<not> (take 2 l \<in> set supported \<and> take 2 l \<notin> set ?locales)"
  have run: "google_validateLocales ph cname supported resolve requested =
      google_validateLoop ph cname supported ?locales ?locales"
    by (simp add: google_validateLocales_def resolveAll_concat Let_def)
  have "find (\<lambda>l. (take 2 l \<in> set supported \<and> take 2 l \<notin> set ?locales) \<or> l \<notin> set supported) ?locales
        = find (\<lambda>l. l \<notin> set supported) ?locales"
    using ok by (rule find_weaken)
  moreover have "\<And>l. find (\<lambda>l. l \<notin> set supported) ?locales = Some l \<Longrightarrow>
      \<not> (take 2 l \<in> set supported \<and> take 2 l \<notin> set ?locales)"
    using ok find_Some_in_set by fast
  ultimately show "google_validateLocales ph cname supported resolve requested =
            (case find (\<lambda>l. l \<notin> set supported) ?locales of
               None \<Rightarrow> Inr ()
             | Some l \<Rightarrow>
                 Inl \<lparr>err_message =
                        ''Locale '' @ ph l @ '' is not supported by Google Conversational Actions.'',
                      err_module = cname,
                      err_hint = Some google_docs_hint\<rparr>)"
    unfolding run google_validateLoop_find
    by (auto simp: google_unsupported_def split: option.splits)
qed

theorem validateLocales_first_unsupported_witness:
  "alexa_validateLocales (\<lambda>s. s) ''alexa'' [''en-US'', ''en-GB''] (getResolvedLocales []) [''de-DE'']
     = Inl \<lparr>err_message = ''Locale de-DE is not supported by Amazon Alexa.'',
            err_module = ''alexa'', err_hint = Some alexa_docs_hint\<rparr>
   \<and> google_validateLocales (\<lambda>s. s) ''BuildHook'' [''en-US'', ''en-GB''] (getResolvedLocales [])
        [''de-DE'']
     = Inl \<lparr>err_message = ''Locale de-DE is not supported by Google Conversational Actions.'',
            err_module = ''BuildHook'', err_hint = Some google_docs_hint\<rparr>"
  using validateLocales_first_unsupported [of "\<lambda>s. s" "''alexa''" "[''en-US'', ''en-GB'']"
      "getResolvedLocales []" "[''de-DE'']" "''BuildHook''"]
  by (simp add: getResolvedLocales_def)

text \<open>
  C3 as stated fails: a two-letter locale on Alexa gets no documentation link, and
  on Google the error can name a supported locale (\<open>en-US\<close>) although a later one
  (\<open>zz-ZZ\<close>) is the first unsupported one.
\<close>

theorem validateLocales_counterexample:
  "alexa_validateLocales (\<lambda>s. s) ''alexa'' [''en-US'', ''en-GB''] (getResolvedLocales []) [''en'']
     = Inl \<lparr>err_message = ''Locale en is not supported by Amazon Alexa.'',
            err_module = ''alexa'',
            err_hint = Some ''Alexa does not support generic locales, please specify locales in your project configuration.''\<rparr>
   \<and> google_validateLocales (\<lambda>s. s) ''BuildHook'' [''en'', ''en-US''] (getResolvedLocales [])
        [''en-US'', ''zz-ZZ'']
     = Inl \<lparr>err_message = ''Locale en-US requires a generic locale en.'',
            err_module = ''BuildHook'', err_hint = None\<rparr>
   \<and> ''en-US'' \<in> set [''en'', ''en-US''] \<and> ''zz-ZZ'' \<notin> set [''en'', ''en-US'']"
  by (simp add: getResolvedLocales_def google_validateLocales_def alexa_unsupported_def
      alexa_generic_hint_def google_requires_generic_def)

text \<open>
  C4 (amended). On Google Conversational Actions the run over the resolved locales stops
  at the first locale \<open>l\<close> that fails one of two checks, taken in this order: if the
  two-letter prefix of \<open>l\<close> is in the supported list but not among the resolved locales,
  the error names \<open>l\<close> and the required generic locale; otherwise \<open>l\<close> fails exactly
  when it is not in the supported list, with the error that names \<open>l\<close> as unsupported.
  Locales after \<open>l\<close> are not examined. Validation succeeds exactly when every resolved
  locale passes both checks.
\<close>

theorem google_validateLocales_two_stage:
  "google_validateLocales ph cname supported resolve requested =
     (let locales = concat (map resolve requested) in
      case find (\<lambda>l. (take 2 l \<in> set supported \<and> take 2 l \<notin> set locales) \<or> l \<notin> set supported)
             locales of
        None \<Rightarrow> Inr ()
      | Some l \<Rightarrow>
          Inl (if take 2 l \<in> set supported \<and> take 2 l \<notin> set locales
               then \<lparr>err_message = ''Locale '' @ ph l @ '' requires a generic locale ''
                                      @ ph (take 2 l) @ ''.'',
                     err_module = cname, err_hint = None\<rparr>
               else \<lparr>err_message = ''Locale '' @ ph l
                                      @ '' is not supported by Google Conversational Actions.'',
                     err_module = cname, err_hint = Some google_docs_hint\<rparr>))
   \<and> (google_validateLocales ph cname supported resolve requested = Inr () \<longleftrightarrow>
        (\<forall>l\<in>set (concat (map resolve requested)).
           \<not> (take 2 l \<in> set supported \<and> take 2 l \<notin> set (concat (map resolve requested)))
           \<and> l \<in> set supported))"
proof -
  let ?locales = "concat (map resolve requested)"
  let ?P = "\<lambda>l. (take 2 l \<in> set supported \<and> take 2 l \<notin> set ?locales) \<or> l \<notin> set supported"
  have run: "google_validateLocales ph cname supported resolve requested =
     (case find ?P ?locales of
        None \<Rightarrow> Inr ()
      | Some l \<Rightarrow>
          Inl (if take 2 l \<in> set supported \<and> take 2 l \<notin> set ?locales
               then \<lparr>err_message = ''Locale '' @ ph l @ '' requires a generic locale ''
                                      @ ph (take 2 l) @ ''.'',
                     err_module = cname, err_hint = None\<rparr>
               else \<lparr>err_message = ''Locale '' @ ph l
                                      @ '' is not supported by Google Conversational Actions.'',
                     err_module = cname, err_hint = Some google_docs_hint\<rparr>))"
    unfolding google_validateLocales_def Let_def resolveAll_concat
    by (simp add: google_validateLoop_find google_requires_generic_def google_unsupported_def
        split: option.splits)
  have "google_validateLocales ph cname supported resolve requested = Inr ()
      \<longleftrightarrow> find ?P ?locales = None"
    unfolding run by (simp split: option.splits)
  also have "\<dots> \<longleftrightarrow> (\<forall>l\<in>set ?locales. \<not> ?P l)"
    unfolding find_None_iff by blast
  finally have iff: "google_validateLocales ph cname supported resolve requested = Inr ()
      \<longleftrightarrow> (\<forall>l\<in>set ?locales. \<not> ?P l)" .
  from iff have "google_validateLocales ph cname supported resolve requested = Inr () \<longleftrightarrow>
        (\<forall>l\<in>set ?locales.
           \<not> (take 2 l \<in> set supported \<and> take 2 l \<notin> set ?locales) \<and> l \<in> set supported)"
    by blast
  with run show ?thesis
    unfolding Let_def by (rule conjI)
qed

theorem google_validateLocales_two_stage_witness:
  "google_validateLocales (\<lambda>s. s) ''BuildHook'' [''en'', ''en-US'', ''de'', ''de-DE'']
       (getResolvedLocales [(''en'', [''en-US''])]) [''en'', ''de-DE'']
     = Inl \<lparr>err_message = ''Locale en-US requires a generic locale en.'',
            err_module = ''BuildHook'', err_hint = None\<rparr>"
  using google_validateLocales_two_stage [of "\<lambda>s. s" "''BuildHook''" "[''en'', ''en-US'', ''de'', ''de-DE'']"
       "getResolvedLocales [(''en'', [''en-US''])]" "[''en'', ''de-DE'']"]
  by (simp add: getResolvedLocales_def)

text \<open>
  C4 as stated fails: the locale \<open>en-US\<close> lacks its generic locale \<open>en\<close>, yet the
  error names \<open>zz-ZZ\<close>, the unsupported locale that comes before it.
\<close>

theorem google_validateLocales_counterexample:
  "google_validateLocales (\<lambda>s. s) ''BuildHook'' [''en'', ''en-US''] (getResolvedLocales [])
        [''zz-ZZ'', ''en-US'']
     = Inl \<lparr>err_message = ''Locale zz-ZZ is not supported by Google Conversational Actions.'',
            err_module = ''BuildHook'',
            err_hint = Some ''For more information on multiple language support: https://developers.google.com/assistant/console/languages-locales''\<rparr>
   \<and> take 2 ''en-US'' \<in> set [''en'', ''en-US'']
   \<and> take 2 ''en-US'' \<notin> set (concat (map (getResolvedLocales []) [''zz-ZZ'', ''en-US'']))"
  by (simp add: getResolvedLocales_def google_validateLocales_def google_unsupported_def
      google_docs_hint_def)

subsection \<open>Persistable user data\<close>

text \<open>
  C10. \<open>setPersistableData d\<close> followed by \<open>getPersistableData\<close> returns a record
  whose \<open>data\<close> is \<open>d.data\<close>, and \<open>setPersistableData\<close> changes only \<open>$data\<close>:
  \<open>createdAt\<close>, \<open>updatedAt\<close>, \<open>isNew\<close>, \<open>jovo\<close> (and so any \<open>id\<close> derived from
  it) and the fields of subclasses stay as they were.
\<close>

theorem setPersistableData_roundtrip:
  "pdata (getPersistableData (setPersistableData u d)) = pdata d
   \<and> createdAt (setPersistableData u d) = createdAt u
   \<and> updatedAt (setPersistableData u d) = updatedAt u
   \<and> isNew (setPersistableData u d) = isNew u
   \<and> user_id (jovo (setPersistableData u d)) = user_id (jovo u)
   \<and> jovo_user.more (setPersistableData u d) = jovo_user.more u"
  by (simp add: getPersistableData_def setPersistableData_def)

subsection \<open>Merging the language model\<close>



subsection \<open>Merging the project files\<close>




text \<open>
  C7 (amended). The file-tree merge uses \<open>merge\<close> without a customizer: at any path
  where the defaults and the user's files both hold an array, the result holds the
  index-wise merge of the two arrays. It is as long as the longer one, a scalar element of
  the user's array is the element at its position, and the default elements beyond the
  user's array stay; when all of the user's elements are scalars, they replace the first
  elements of the default array.
\<close>

theorem file_merge_arrays_index_wise:
  "wf_json (JObj files) \<longrightarrow> walk (JObj defaultFiles) p = Some (JArr xs) \<longrightarrow>
   walk (JObj files) p = Some (JArr ys) \<longrightarrow>
     (\<exists>rs. get (baseProjectFiles False defaultFiles files) p = JArr rs
        \<and> length rs = max (length xs) (length ys)
        \<and> (\<forall>i<length ys. scalar (ys ! i) \<longrightarrow> rs ! i = ys ! i)
        \<and> (\<forall>i. length ys \<le> i \<and> i < length xs \<longrightarrow> rs ! i = xs ! i))
     \<and> ((\<forall>y\<in>set ys. scalar y) \<longrightarrow>
          get (baseProjectFiles False defaultFiles files) p = JArr (ys @ drop (length ys) xs))"
proof (intro impI)
  assume w: "wf_json (JObj files)" and x: "walk (JObj defaultFiles) p = Some (JArr xs)"
    and y: "walk (JObj files) p = Some (JArr ys)"
  from x have ne: "p \<noteq> []" by auto
  have "walk (merge_val no_customizer (JObj defaultFiles) (JObj files)) p
      = Some (merge_val no_customizer (JArr xs) (JArr ys))"
    by (rule merge_walk [where cust = no_customizer, OF no_customizer_obj w y x])
  moreover have "merge_val no_customizer (JObj defaultFiles) (JObj files)
      = baseProjectFiles False defaultFiles files"
    by (simp add: baseProjectFiles_def merge_def no_customizer_obj)
  moreover have "merge_val no_customizer (JArr xs) (JArr ys) = JArr (merge_elems no_customizer xs ys)"
    by (simp add: no_customizer_def)
  ultimately have "walk (baseProjectFiles False defaultFiles files) p
      = Some (JArr (merge_elems no_customizer xs ys))"
    by simp
  with ne have g: "get (baseProjectFiles False defaultFiles files) p
      = JArr (merge_elems no_customizer xs ys)"
    by (simp add: get_def)
  have 1: "\<exists>rs. get (baseProjectFiles False defaultFiles files) p = JArr rs
        \<and> length rs = max (length xs) (length ys)
        \<and> (\<forall>i<length ys. scalar (ys ! i) \<longrightarrow> rs ! i = ys ! i)
        \<and> (\<forall>i. length ys \<le> i \<and> i < length xs \<longrightarrow> rs ! i = xs ! i)"
    using g merge_elems_length merge_elems_nth_scalar merge_elems_nth_rest by auto
  have 2: "(\<forall>y\<in>set ys. scalar y) \<longrightarrow>
          get (baseProjectFiles False defaultFiles files) p = JArr (ys @ drop (length ys) xs)"
    using g by (simp add: merge_elems_scalars)
  from 1 2 show "(\<exists>rs. get (baseProjectFiles False defaultFiles files) p = JArr rs
        \<and> length rs = max (length xs) (length ys)
        \<and> (\<forall>i<length ys. scalar (ys ! i) \<longrightarrow> rs ! i = ys ! i)
        \<and> (\<forall>i. length ys \<le> i \<and> i < length xs \<longrightarrow> rs ! i = xs ! i))
     \<and> ((\<forall>y\<in>set ys. scalar y) \<longrightarrow>
          get (baseProjectFiles False defaultFiles files) p = JArr (ys @ drop (length ys) xs))"
    by (rule conjI)
qed

theorem file_merge_arrays_index_wise_witness:
  "get (baseProjectFiles False
          [(''skill-package/'', JObj [(''skill.json'', JObj [(''manifest'', JObj
             [(''publishingInformation'', JObj
                [(''distributionCountries'', JArr [JStr ''US'', JStr ''DE''])])])])])]
          [(''skill-package/'', JObj [(''skill.json'', JObj [(''manifest'', JObj
             [(''publishingInformation'', JObj
                [(''distributionCountries'', JArr [JStr ''GB''])])])])])])
       [''skill-package/'', ''skill.json'', ''manifest'', ''publishingInformation'',
        ''distributionCountries'']
     = JArr [JStr ''GB'', JStr ''DE'']"
proof -
  let ?D = "[(''skill-package/'', JObj [(''skill.json'', JObj [(''manifest'', JObj
             [(''publishingInformation'', JObj
                [(''distributionCountries'', JArr [JStr ''US'', JStr ''DE''])])])])])]"
  let ?F = "[(''skill-package/'', JObj [(''skill.json'', JObj [(''manifest'', JObj
             [(''publishingInformation'', JObj
                [(''distributionCountries'', JArr [JStr ''GB''])])])])])]"
  let ?p = "[''skill-package/'', ''skill.json'', ''manifest'', ''publishingInformation'',
        ''distributionCountries'']"
  have w: "wf_json (JObj ?F)" by simp
  have x: "walk (JObj ?D) ?p = Some (JArr [JStr ''US'', JStr ''DE''])" by simp
  have y: "walk (JObj ?F) ?p = Some (JArr [JStr ''GB''])" by simp
  have sc: "\<forall>y\<in>set [JStr ''GB'']. scalar y" by simp
  from file_merge_arrays_index_wise [where files = ?F and defaultFiles = ?D and p = ?p
      and xs = "[JStr ''US'', JStr ''DE'']" and ys = "[JStr ''GB'']"] w x y sc
  have "get (baseProjectFiles False ?D ?F) ?p
      = JArr ([JStr ''GB''] @ drop (length [JStr ''GB'']) [JStr ''US'', JStr ''DE''])"
    by blast
  then show ?thesis by simp
qed

text \<open>
  C7 as stated fails: inside \<open>skill.json\<close> the merge of \<open>[US, DE]\<close> and \<open>[GB]\<close> is
  \<open>[GB, DE]\<close>, not the duplicate-free concatenation \<open>[US, DE, GB]\<close>; likewise
  \<open>[1, 2]\<close> and \<open>[3]\<close> give \<open>[3, 2]\<close>, and duplicates of the user's array stay.
\<close>

theorem file_merge_arrays_counterexample:
  "get (baseProjectFiles False
          [(''skill-package/'', JObj [(''skill.json'', JObj [(''manifest'', JObj
             [(''publishingInformation'', JObj
                [(''distributionCountries'', JArr [JStr ''US'', JStr ''DE''])])])])])]
          [(''skill-package/'', JObj [(''skill.json'', JObj [(''manifest'', JObj
             [(''publishingInformation'', JObj
                [(''distributionCountries'', JArr [JStr ''GB''])])])])])])
       [''skill-package/'', ''skill.json'', ''manifest'', ''publishingInformation'',
        ''distributionCountries'']
     = JArr [JStr ''GB'', JStr ''DE'']
   \<and> uniq ([JStr ''US'', JStr ''DE''] @ [JStr ''GB'']) = [JStr ''US'', JStr ''DE'', JStr ''GB'']
   \<and> get (baseProjectFiles False [(''a'', JArr [JNum 1, JNum 2])] [(''a'', JArr [JNum 3])]) [''a'']
     = JArr [JNum 3, JNum 2]
   \<and> uniq ([JNum 1, JNum 2] @ [JNum 3]) = [JNum 1, JNum 2, JNum 3]
   \<and> get (baseProjectFiles False [(''a'', JArr [])] [(''a'', JArr [JNum 1, JNum 1])]) [''a'']
     = JArr [JNum 1, JNum 1]
   \<and> uniq ([] @ [JNum 1, JNum 1]) = [JNum 1]"
  by (simp add: baseProjectFiles_def merge_def no_customizer_def get_def js_prop_def uniq_def)

subsection \<open>Building the language model\<close>

text \<open>
  C8, at the failing input. A converter that yields no file for \<open>en-US\<close>, on a model
  with an intent: the Google hook raises nothing and writes \<open>actions.yaml\<close> only, while
  the Alexa hook raises the error that names the locale and writes nothing.
\<close>

theorem google_build_without_files:
  "google_buildLanguageModel
      (\<lambda>l. Inr [(''invocation'', JStr ''my app''),
                 (''intents'', JArr [JObj [(''name'', JStr ''HelloIntent'')]])])
      (\<lambda>l. None) (\<lambda>l. None) (\<lambda>model locale defaultLocale. Inr (Some []))
      [''build'', ''platform.googleAssistant''] None (Some ''en-US'') ''en'' [''en-US'']
      \<lparr>fs_dirs = [], fs_files = []\<rparr>
     = (None,
        \<lparr>fs_dirs = [[''build''], [''build'', ''platform.googleAssistant''],
                    [''build'', ''platform.googleAssistant'', ''actions'']],
         fs_files = [([''build'', ''platform.googleAssistant'', ''actions'', ''actions.yaml''],
                      YamlText (JObj [(''custom'', JObj [(''actions.intent.MAIN'', JObj [])])]))]\<rparr>)
   \<and> alexa_buildLanguageModel ''AlexaCli''
      (\<lambda>l. Inr [(''invocation'', JStr ''my app''),
                 (''intents'', JArr [JObj [(''name'', JStr ''HelloIntent'')]])])
      (\<lambda>l. None) (\<lambda>l. None) (\<lambda>model locale. Inr (Some []))
      [''build'', ''platform.alexa'', ''models''] (\<lambda>l. [''build'', ''platform.alexa'', ''models'', l @ ''.json''])
      ''en'' [''en-US''] \<lparr>fs_dirs = [], fs_files = []\<rparr>
     = (Some (JovoErr \<lparr>err_message = ''Could not build Alexa files for locale \"en-US\"!'',
                       err_module = ''AlexaCli'', err_hint = None\<rparr>),
        \<lparr>fs_dirs = [], fs_files = []\<rparr>)"
  by (simp add: google_buildLanguageModel_def alexa_buildLanguageModel_def getModel_def
      getJovoModel_def mergeWithArrays_def merge_def ensureDir_def existsSync_def mkdirSync_def
      writeFileSync_def could_not_build_def)

subsection \<open>Reverse build\<close>

text \<open>
  C9. When the locale has no canonical model, the parsed data is merged into
  \<open>{ invocation: '' }\<close>: the saved model has exactly the keys of the parsed data with
  their values, and \<open>invocation\<close>, which is the parsed invocation when there is one
  and the empty placeholder otherwise. When the converter yields no data the task fails
  with the error "Alexa files did not contain any valid data.".
\<close>

theorem reverse_build_without_model:
  "(projectModel locale = Inl e \<longrightarrow>
    importNative [\<lparr>nfi_path = [], nfi_content = platformModel locale\<rparr>] locale = Inr (Some nd) \<longrightarrow>
    wf_json (JObj nd) \<longrightarrow>
      buildReverse_locale cname importNative projectModel platformModel locale
        = Inr (merge [(''invocation'', JStr '''')] nd)
      \<and> (\<forall>k. k \<noteq> ''invocation'' \<longrightarrow>
             map_of (merge [(''invocation'', JStr '''')] nd) k = map_of nd k)
      \<and> map_of (merge [(''invocation'', JStr '''')] nd) ''invocation''
          = Some (case map_of nd ''invocation'' of
                    None \<Rightarrow> JStr ''''
                  | Some JUndef \<Rightarrow> JStr ''''
                  | Some v \<Rightarrow> v))
   \<and> (importNative [\<lparr>nfi_path = [], nfi_content = platformModel locale\<rparr>] locale = Inr None \<longrightarrow>
        buildReverse_locale cname importNative projectModel platformModel locale
          = Inl (JovoErr \<lparr>err_message = ''Alexa files did not contain any valid data.'',
                          err_module = cname, err_hint = None\<rparr>))"
proof (intro conjI impI allI)
  assume "projectModel locale = Inl e"
    "importNative [\<lparr>nfi_path = [], nfi_content = platformModel locale\<rparr>] locale = Inr (Some nd)"
  then show "buildReverse_locale cname importNative projectModel platformModel locale
        = Inr (merge [(''invocation'', JStr '''')] nd)"
    by (simp add: buildReverse_locale_def)
next
  fix k :: string
  assume w: "wf_json (JObj nd)" and k: "k \<noteq> ''invocation''"
  show "map_of (merge [(''invocation'', JStr '''')] nd) k = map_of nd k"
  proof (cases "map_of nd k")
    case None
    with w k show ?thesis by (simp add: merge_def merge_props_lookup)
  next
    case (Some sv)
    then have "sv \<in> snd ` set nd" by (metis map_of_SomeD snd_conv image_eqI)
    with w have "wf_json sv" by auto
    then have "merge_val no_customizer JUndef sv = sv"
      using merge_val_over_scalar [of sv JUndef] by (cases "sv = JUndef") (simp_all add: no_customizer_def)
    with w k Some show ?thesis by (simp add: merge_def merge_props_lookup js_prop_def)
  qed
next
  assume w: "wf_json (JObj nd)"
  show "map_of (merge [(''invocation'', JStr '''')] nd) ''invocation''
          = Some (case map_of nd ''invocation'' of
                    None \<Rightarrow> JStr ''''
                  | Some JUndef \<Rightarrow> JStr ''''
                  | Some v \<Rightarrow> v)"
  proof (cases "map_of nd ''invocation''")
    case None
    with w show ?thesis by (simp add: merge_def merge_props_lookup)
  next
    case (Some sv)
    then have "sv \<in> snd ` set nd" by (metis map_of_SomeD snd_conv image_eqI)
    with w have "wf_json sv" by auto
    then have "merge_val no_customizer (JStr '''') sv = (if sv = JUndef then JStr '''' else sv)"
      by (simp add: merge_val_over_scalar)
    with w Some show ?thesis
      by (cases sv) (simp_all add: merge_def merge_props_lookup js_prop_def)
  qed
next
  assume "importNative [\<lparr>nfi_path = [], nfi_content = platformModel locale\<rparr>] locale = Inr None"
  then show "buildReverse_locale cname importNative projectModel platformModel locale
          = Inl (JovoErr \<lparr>err_message = ''Alexa files did not contain any valid data.'',
                          err_module = cname, err_hint = None\<rparr>)"
    by (simp add: buildReverse_locale_def no_valid_data_def)
qed

theorem reverse_build_without_model_witness:
  "buildReverse_locale ''AlexaCli''
      (\<lambda>fs l. Inr (Some [(''invocation'', JStr ''my app''),
                           (''intents'', JArr [JObj [(''name'', JStr ''HelloIntent'')]])]))
      (\<lambda>l. Inl (OtherErr ''no model file'')) (\<lambda>l. JNull) ''en-US''
     = Inr [(''invocation'', JStr ''my app''),
            (''intents'', JArr [JObj [(''name'', JStr ''HelloIntent'')]])]
   \<and> buildReverse_locale ''AlexaCli'' (\<lambda>fs l. Inr None)
      (\<lambda>l. Inl (OtherErr ''no model file'')) (\<lambda>l. JNull) ''en-US''
     = Inl (JovoErr \<lparr>err_message = ''Alexa files did not contain any valid data.'',
                     err_module = ''AlexaCli'', err_hint = None\<rparr>)"
proof -
  let ?nd = "[(''invocation'', JStr ''my app''),
              (''intents'', JArr [JObj [(''name'', JStr ''HelloIntent'')]])]"
  have w: "wf_json (JObj ?nd)" by simp
  have m: "merge [(''invocation'', JStr '''')] ?nd = ?nd"
    by (simp add: merge_def no_customizer_def js_prop_def)
  from reverse_build_without_model
    [of "\<lambda>l. Inl (OtherErr ''no model file'')" "''en-US''" "OtherErr ''no model file''"
        "\<lambda>fs l. Inr (Some ?nd)" "\<lambda>l. JNull" ?nd "''AlexaCli''"] w
  have a: "buildReverse_locale ''AlexaCli'' (\<lambda>fs l. Inr (Some ?nd))
      (\<lambda>l. Inl (OtherErr ''no model file'')) (\<lambda>l. JNull) ''en-US''
     = Inr (merge [(''invocation'', JStr '''')] ?nd)"
    by blast
  from reverse_build_without_model
    [of "\<lambda>l. Inl (OtherErr ''no model file'')" "''en-US''" "OtherErr ''no model file''"
        "\<lambda>fs l. Inr None" "\<lambda>l. JNull" ?nd "''AlexaCli''"]
  have b: "buildReverse_locale ''AlexaCli'' (\<lambda>fs l. Inr None)
      (\<lambda>l. Inl (OtherErr ''no model file'')) (\<lambda>l. JNull) ''en-US''
     = Inl (JovoErr \<lparr>err_message = ''Alexa files did not contain any valid data.'',
                     err_module = ''AlexaCli'', err_hint = None\<rparr>)"
    by blast
  from a b show ?thesis by (simp only: m)
qed

end
